theory Spec2Isabelle
  imports Main "HOL-Library.Word" "HOL-Library.Sublist" "HOL-Library.Signed_Division"
begin

section \<open>Query builder (internal/openobserve/queries.go)\<close>

subsection \<open>Text\<close>

text \<open>
  A Go \<open>string\<close> is a sequence of bytes; the model uses \<^typ>\<open>string\<close>. The three
  characters that cannot be written inside an Isabelle literal get names.
\<close>

definition backslash :: char where
  "backslash = CHR 0x5C"

definition quote :: char where
  "quote = CHR 0x27"

definition dquote :: char where
  "dquote = CHR 0x22"

text \<open>
  \<open>strings.ReplaceAll(s, old, new)\<close> of the Go standard library: the non-overlapping
  occurrences of \<open>old\<close> are replaced from left to right. The program only passes one-byte
  patterns (and the inverse substitutions below two-byte ones). For the empty pattern,
  which Go matches at every UTF-8 boundary, the model leaves the text unchanged; nothing
  below concerns that case.
\<close>

function ReplaceAll :: "string \<Rightarrow> string \<Rightarrow> string \<Rightarrow> string" where
  "ReplaceAll s old new =
     (if s = [] \<or> old = [] then s
      else if prefix old s then new @ ReplaceAll (drop (length old) s) old new
      else hd s # ReplaceAll (tl s) old new)"
  by pat_completeness auto
termination
  by (relation "measure (\<lambda>(s, old, new). length s)") auto

declare ReplaceAll.simps [simp del]

text \<open>\<open>strings.Join(elems, sep)\<close>.\<close>

fun Join :: "string list \<Rightarrow> string \<Rightarrow> string" where
  "Join [] sep = []"
| "Join [x] sep = x"
| "Join (x # y # ys) sep = x @ sep @ Join (y # ys) sep"

text \<open>
  \<open>escapeSQLString\<close>: backslashes first, single quotes second.
\<close>

definition escapeSQLString :: "string \<Rightarrow> string" where
  "escapeSQLString v =
     (let v1 = ReplaceAll v [backslash] [backslash, backslash];
          v2 = ReplaceAll v1 [quote] [quote, quote]
      in v2)"

subsection \<open>What the escaping is measured against\<close>

text \<open>
  The specification describes the escaping character by character, and names its inverse:
  the two substitutions reversed, the quote first and the backslash second. Both follow
  the specification's words; neither is code of the repository.
\<close>

definition spec_escape_char :: "char \<Rightarrow> string" where
  "spec_escape_char c =
     (if c = backslash then [backslash, backslash]
      else if c = quote then [quote, quote]
      else [c])"

definition spec_unescape :: "string \<Rightarrow> string" where
  "spec_unescape e =
     ReplaceAll (ReplaceAll e [quote, quote] [quote]) [backslash, backslash] [backslash]"

text \<open>
  Reading a single-quoted SQL literal: \<open>literal_close bs t\<close> is the offset in \<open>t\<close>, the
  text after the opening quote, of the quote that closes the literal. A doubled quote
  stands for one quote and does not close it. With \<open>bs\<close> the reader is of the dialect
  where a backslash also takes the next character with it. \<open>None\<close>: the literal is not
  closed.
\<close>

fun literal_close :: "bool \<Rightarrow> string \<Rightarrow> nat option" where
  "literal_close bs [] = None"
| "literal_close bs [c] = (if c = quote then Some 0 else None)"
| "literal_close bs (c # d # cs) =
     (if c = quote then
        (if d = quote then map_option (\<lambda>n. n + 2) (literal_close bs cs) else Some 0)
      else if bs \<and> c = backslash then map_option (\<lambda>n. n + 2) (literal_close bs cs)
      else map_option Suc (literal_close bs (d # cs)))"

subsection \<open>Values and time\<close>

text \<open>
  The values the builders put into a \<open>map[string]interface{}\<close>: strings, Go integers
  (\<open>int\<close> and \<open>int64\<close>, by their value), string slices and nested maps. A map literal is
  kept as the list of its entries in the order of the source; its keys are distinct.
\<close>

datatype json =
    JString string
  | JInt int
  | JStrings "string list"
  | JObject "(string \<times> json) list"

fun field :: "json \<Rightarrow> string \<Rightarrow> json option" where
  "field (JObject kvs) k = map_of kvs k"
| "field _ k = None"

text \<open>
  A \<open>time.Time\<close> is kept as the instant it denotes: seconds since the Unix epoch and
  nanoseconds within the second. \<open>Unix\<close>, \<open>time.UnixMicro\<close> and the method
  \<open>Time.UnixMicro\<close> follow the standard library; \<open>/\<close> and \<open>%\<close> of Go truncate towards
  zero (\<open>sdiv\<close>, \<open>smod\<close>), and the method's result is an \<open>int64\<close>.
\<close>

record Time =
  unixSec :: int
  nsec :: int

definition Unix :: "int \<Rightarrow> int \<Rightarrow> Time" where
  "Unix sec ns =
     (if ns < 0 \<or> ns \<ge> 1000000000 then
        (let n = ns sdiv 1000000000;
             sec1 = sec + n;
             ns1 = ns - n * 1000000000
         in if ns1 < 0 then \<lparr>unixSec = sec1 - 1, nsec = ns1 + 1000000000\<rparr>
            else \<lparr>unixSec = sec1, nsec = ns1\<rparr>)
      else \<lparr>unixSec = sec, nsec = ns\<rparr>)"

definition time_UnixMicro :: "64 word \<Rightarrow> Time" where
  "time_UnixMicro usec = Unix (sint usec sdiv 1000000) ((sint usec smod 1000000) * 1000)"

definition UnixMicro :: "Time \<Rightarrow> 64 word" where
  "UnixMicro t = word_of_int (unixSec t * 1000000 + nsec t sdiv 1000)"

subsection \<open>Request parameters (declared beside the client)\<close>

text \<open>
  Go's \<open>int\<close> is taken at 64 bits, as on the platforms the service is built for; it is
  read as a signed number (\<open>sint\<close>).
\<close>

record ComponentLogsParams =
  ComponentIDs :: "string list"
  EnvironmentID :: string
  ProjectID :: string
  StartTime :: Time
  EndTime :: Time
  SearchPhrase :: string
  LogLevels :: "string list"
  Limit :: "64 word"
  SortOrder :: string

record LogAlertParams =
  Name :: string
  SearchPattern :: string
  ThresholdValue :: "64 word"
  Duration :: "64 word"
  Frequency :: "64 word"

subsection \<open>generateAlertConfig\<close>

text \<open>
  The function builds the map \<open>alertConfig\<close> and returns \<open>json.Marshal(alertConfig)\<close>.
  The map is \<open>alertConfig\<close> below; the encoder is a parameter (\<open>None\<close>: it returned an
  error). The pretty-printed copy written to standard output at debug level changes
  neither the map nor the result and is left out.
\<close>

definition alertConfig :: "LogAlertParams \<Rightarrow> string \<Rightarrow> json" where
  "alertConfig params streamName =
     (let query = ''SELECT count(*) as '' @ ''match_count'' @ '' FROM '' @ [dquote] @ streamName
                    @ [dquote] @ '' WHERE str_match(log, '' @ [quote]
                    @ escapeSQLString (SearchPattern params) @ [quote] @ '')''
      in JObject
           [(''name'', JString (Name params)),
            (''stream_name'', JString streamName),
            (''query'', JString query),
            (''condition'', JObject
               [(''column'', JString ''match_count''),
                (''operator'', JString ''>''),
                (''value'', JInt (sint (ThresholdValue params)))]),
            (''duration'', JInt (sint (Duration params))),
            (''frequency'', JInt (sint (Frequency params))),
            (''is_realtime'', JString ''no''),
            (''destinations'', JStrings [''openchoreo_alerts'']),
            (''alert_type'', JString ''scheduled'')])"

definition generateAlertConfig ::
  "(json \<Rightarrow> string option) \<Rightarrow> LogAlertParams \<Rightarrow> string \<Rightarrow> string option" where
  "generateAlertConfig Marshal params streamName = Marshal (alertConfig params streamName)"

subsection \<open>generateComponentLogsQuery\<close>

text \<open>
  The locals \<open>conditions\<close>, \<open>sql\<close>, \<open>limit\<close> and \<open>query\<close> of the function, each as the
  value it has when the function is done with it. The two index loops fill a slice of the
  length of their input, one element for each input element.
\<close>

definition componentLogs_conditions :: "ComponentLogsParams \<Rightarrow> string list" where
  "componentLogs_conditions params =
     (let conditions =
            [''kubernetes_labels_openchoreo_dev_project_uid = '' @ [quote]
               @ escapeSQLString (ComponentLogsParams.ProjectID params) @ [quote],
             ''kubernetes_labels_openchoreo_dev_environment_uid = '' @ [quote]
               @ escapeSQLString (ComponentLogsParams.EnvironmentID params) @ [quote]];
          conditions =
            (if length (ComponentIDs params) > 0 then
               (let componentConditions =
                      map (\<lambda>id. ''kubernetes_labels_openchoreo_dev_component_uid = '' @ [quote]
                                   @ escapeSQLString id @ [quote])
                          (ComponentIDs params)
                in conditions @ [''('' @ Join componentConditions '' OR '' @ '')''])
             else conditions);
          conditions =
            (if SearchPhrase params \<noteq> [] then
               conditions @ [''log LIKE '' @ [quote] @ ''%''
                               @ escapeSQLString (SearchPhrase params) @ ''%'' @ [quote]]
             else conditions);
          conditions =
            (if length (LogLevels params) > 0 then
               (let levelConditions =
                      map (\<lambda>level. ''logLevel = '' @ [quote] @ escapeSQLString level @ [quote])
                          (LogLevels params)
                in conditions @ [''('' @ Join levelConditions '' OR '' @ '')''])
             else conditions)
      in conditions)"

definition componentLogs_sql :: "ComponentLogsParams \<Rightarrow> string \<Rightarrow> string" where
  "componentLogs_sql params stream =
     (let sql = ''SELECT * FROM '' @ stream @ '' WHERE ''
                  @ Join (componentLogs_conditions params) '' AND ''
      in if SortOrder params = ''ASC'' \<or> SortOrder params = ''asc''
         then sql @ '' ORDER BY _timestamp ASC''
         else sql @ '' ORDER BY _timestamp DESC'')"

definition componentLogs_limit :: "ComponentLogsParams \<Rightarrow> 64 word" where
  "componentLogs_limit params =
     (let limit = Limit params
      in if sint limit \<le> 0 then 100 else limit)"

definition componentLogs_query :: "ComponentLogsParams \<Rightarrow> string \<Rightarrow> json" where
  "componentLogs_query params stream =
     JObject
       [(''query'', JObject
           [(''sql'', JString (componentLogs_sql params stream)),
            (''start_time'', JInt (sint (UnixMicro (StartTime params)))),
            (''end_time'', JInt (sint (UnixMicro (EndTime params)))),
            (''from'', JInt 0),
            (''size'', JInt (sint (componentLogs_limit params)))]),
        (''timeout'', JInt 0)]"

definition generateComponentLogsQuery ::
  "(json \<Rightarrow> string option) \<Rightarrow> ComponentLogsParams \<Rightarrow> string \<Rightarrow> string option" where
  "generateComponentLogsQuery Marshal params stream = Marshal (componentLogs_query params stream)"

text \<open>
  The specification speaks of a case-insensitive match of the sort order. Its reading
  here: equal after folding the ASCII capitals to small letters.
\<close>

definition spec_lower :: "char \<Rightarrow> char" where
  "spec_lower c =
     (case map_of (zip ''ABCDEFGHIJKLMNOPQRSTUVWXYZ'' ''abcdefghijklmnopqrstuvwxyz'') c of
        Some l \<Rightarrow> l
      | None \<Rightarrow> c)"

definition spec_equal_fold :: "string \<Rightarrow> string \<Rightarrow> bool" where
  "spec_equal_fold s t = (map spec_lower s = map spec_lower t)"

section \<open>Backend client\<close>

subsection \<open>The network and the library, as the client sees them\<close>

text \<open>
  A request as the client builds it: method, URL, body, the \<open>Content-Type\<close> header where
  it is set, and the basic-auth pair.
\<close>

record Request =
  req_method :: string
  req_url :: string
  req_body :: "string option"
  req_content_type :: "string option"
  req_basic_auth :: "string \<times> string"

text \<open>
  What \<open>httpClient.Do\<close> followed by \<open>io.ReadAll\<close> of the body gives: \<open>Do\<close> fails, the
  read fails, or there are a status code and a body.
\<close>

datatype Exchange =
    DoFailed
  | ReadFailed
  | Replied int string

text \<open>
  The errors of the client, one constructor for each message it formats: the wrapped
  cause of a library error is not kept, the wrapped cause of \<open>DeleteAlert\<close> is.
\<close>

datatype Error =
    ErrCreateRequest
  | ErrExecuteRequest
  | ErrReadBody
  | ErrStatus int string
  | ErrUnmarshal
  | ErrAlertNotFound string
  | ErrFindAlert string Error
  | ErrMarshalQuery
  | ErrAlertConfig

text \<open>The element of the \<open>list\<close> field of the alert listing.\<close>

record AlertRef =
  alert_id :: string
  name :: string

text \<open>
  A decoded JSON value as \<open>encoding/json\<close> stores it in an \<open>interface{}\<close>. The type
  \<open>'f\<close> stands for \<open>float64\<close>.
\<close>

datatype 'f any =
    ANil
  | ABool bool
  | AFloat64 'f
  | AString string
  | ASlice "'f any list"
  | AMap "string \<Rightarrow> 'f any option"

record 'f OpenObserveResponse =
  Took :: "64 word"
  Hits :: "(string \<Rightarrow> 'f any option) list"
  Total :: "64 word"

text \<open>
  Everything the client calls and does not define. The backend is a state machine of
  which nothing is assumed: it answers a request from its state and moves on. The library
  functions are arbitrary too: \<open>url_parses\<close> says whether \<open>http.NewRequestWithContext\<close>
  accepts the URL, the decoders return \<open>None\<close> where the library returns an error, and
  \<open>float64_to_int64\<close> is the conversion \<open>int64(ts)\<close>.
\<close>

record ('b, 'f) Env =
  roundTrip :: "'b \<Rightarrow> Request \<Rightarrow> Exchange \<times> 'b"
  url_parses :: "string \<Rightarrow> bool"
  json_Marshal :: "json \<Rightarrow> string option"
  json_Unmarshal_alerts :: "string \<Rightarrow> AlertRef list option"
  json_Unmarshal_search :: "string \<Rightarrow> 'f OpenObserveResponse option"
  json_Decode_alert :: "string \<Rightarrow> LogAlertParams option"
  float64_to_int64 :: "'f \<Rightarrow> 64 word"

text \<open>
  The state threaded through the client: the backend, and the requests handed to
  \<open>httpClient.Do\<close> so far, oldest first.
\<close>

type_synonym 'b net = "'b \<times> Request list"

definition Do :: "('b, 'f) Env \<Rightarrow> Request \<Rightarrow> 'b net \<Rightarrow> Exchange \<times> 'b net" where
  "Do env req w =
     (case roundTrip env (fst w) req of
        (ex, b') \<Rightarrow> (ex, (b', snd w @ [req])))"

text \<open>
  The client as \<open>NewClient\<close> leaves it, the base URL without a trailing slash. Its HTTP
  client and its logger are not fields of the model: the first is the \<open>roundTrip\<close> of the
  environment, the second changes no result.
\<close>

record Client =
  baseURL :: string
  org :: string
  stream :: string
  user :: string
  token :: string

subsection \<open>Alerts\<close>


text \<open>The scan of the listing at the end of \<open>getAlertIDByName\<close>.\<close>

fun scanAlerts :: "AlertRef list \<Rightarrow> string \<Rightarrow> string option" where
  "scanAlerts [] n = None"
| "scanAlerts (alert # rest) n =
     (if name alert = n then Some (alert_id alert) else scanAlerts rest n)"

definition getAlertIDByName ::
  "('b, 'f) Env \<Rightarrow> Client \<Rightarrow> string \<Rightarrow> 'b net \<Rightarrow> (Error + string) \<times> 'b net" where
  "getAlertIDByName env c n w =
     (let url = baseURL c @ ''/api/v2/'' @ org c @ ''/alerts''
      in if \<not> url_parses env url then (Inl ErrCreateRequest, w)
         else
           (case Do env \<lparr>req_method = ''GET'', req_url = url, req_body = None,
                          req_content_type = None,
                          req_basic_auth = (user c, token c)\<rparr> w of
              (DoFailed, w') \<Rightarrow> (Inl ErrExecuteRequest, w')
            | (ReadFailed, w') \<Rightarrow> (Inl ErrReadBody, w')
            | (Replied statusCode body, w') \<Rightarrow>
                if statusCode \<noteq> 200 then (Inl (ErrStatus statusCode body), w')
                else
                  (case json_Unmarshal_alerts env body of
                     None \<Rightarrow> (Inl ErrUnmarshal, w')
                   | Some list \<Rightarrow>
                       (case scanAlerts list n of
                          Some alertID \<Rightarrow> (Inr alertID, w')
                        | None \<Rightarrow> (Inl (ErrAlertNotFound n), w')))))"

definition DeleteAlert ::
  "('b, 'f) Env \<Rightarrow> Client \<Rightarrow> string \<Rightarrow> 'b net \<Rightarrow> Error option \<times> 'b net" where
  "DeleteAlert env c alertName w =
     (case getAlertIDByName env c alertName w of
        (Inl err, w1) \<Rightarrow> (Some (ErrFindAlert alertName err), w1)
      | (Inr alertID, w1) \<Rightarrow>
          (let url = baseURL c @ ''/api/v2/'' @ org c @ ''/alerts/'' @ alertID
           in if \<not> url_parses env url then (Some ErrCreateRequest, w1)
              else
                (case Do env \<lparr>req_method = ''DELETE'', req_url = url, req_body = None,
                               req_content_type = None,
                               req_basic_auth = (user c, token c)\<rparr> w1 of
                   (DoFailed, w2) \<Rightarrow> (Some ErrExecuteRequest, w2)
                 | (ReadFailed, w2) \<Rightarrow> (Some ErrReadBody, w2)
                 | (Replied statusCode body, w2) \<Rightarrow>
                     if statusCode \<noteq> 200 \<and> statusCode \<noteq> 204
                     then (Some (ErrStatus statusCode body), w2)
                     else (None, w2))))"

subsection \<open>Log search and the normalisation of hits\<close>

record ComponentLogsEntry =
  Timestamp :: Time
  Log :: string
  LogLevel :: string
  ComponentID :: string
  EnvironmentID :: string
  ProjectID :: string
  Namespace :: string
  PodID :: string
  ContainerName :: string
  Labels :: "string \<Rightarrow> string option"

record ComponentLogsResult =
  Logs :: "ComponentLogsEntry list"
  TotalCount :: "64 word"
  Took :: "64 word"

text \<open>
  The comma-ok type assertions \<open>x.(string)\<close>, \<open>x.(float64)\<close> and
  \<open>x.(map[string]interface{})\<close> on the result of a map lookup; a missing key gives the nil
  interface, on which every assertion fails.
\<close>

definition assertString :: "'f any option \<Rightarrow> string option" where
  "assertString x = (case x of Some (AString s) \<Rightarrow> Some s | _ \<Rightarrow> None)"

definition assertFloat64 :: "'f any option \<Rightarrow> 'f option" where
  "assertFloat64 x = (case x of Some (AFloat64 f) \<Rightarrow> Some f | _ \<Rightarrow> None)"

definition assertMap :: "'f any option \<Rightarrow> (string \<Rightarrow> 'f any option) option" where
  "assertMap x = (case x of Some (AMap m) \<Rightarrow> Some m | _ \<Rightarrow> None)"

text \<open>
  The loop over the nested label object stores every string-valued entry under its key.
  The keys of a map are distinct, so the order of the iteration does not show in the
  result: a key holds its string value where it has one, and what it held before
  otherwise.
\<close>

definition copyLabels ::
  "(string \<Rightarrow> 'f any option) \<Rightarrow> (string \<Rightarrow> string option) \<Rightarrow> (string \<Rightarrow> string option)" where
  "copyLabels labels acc =
     (\<lambda>k. case assertString (labels k) of Some strVal \<Rightarrow> Some strVal | None \<Rightarrow> acc k)"

definition parseApplicationLogEntry ::
  "64 word \<Rightarrow> (string \<Rightarrow> 'f any option) \<Rightarrow> ComponentLogsEntry" where
  "parseApplicationLogEntry timestamp source =
     (let entry = \<lparr>Timestamp = time_UnixMicro timestamp, Log = [], LogLevel = [],
                    ComponentID = [], EnvironmentID = [], ProjectID = [], Namespace = [],
                    PodID = [], ContainerName = [], Labels = Map.empty\<rparr>;
          entry = (case assertString (source ''log'') of
                     Some v \<Rightarrow> entry\<lparr>Log := v\<rparr> | None \<Rightarrow> entry);
          entry = (case assertString (source ''logLevel'') of
                     Some v \<Rightarrow> entry\<lparr>LogLevel := v\<rparr> | None \<Rightarrow> entry);
          entry = (case assertString (source ''kubernetes_labels_openchoreo_dev_component_uid'') of
                     Some v \<Rightarrow> entry\<lparr>ComponentID := v\<rparr> | None \<Rightarrow> entry);
          entry = (case assertString (source ''kubernetes_labels_openchoreo_dev_environment_uid'') of
                     Some v \<Rightarrow> entry\<lparr>EnvironmentID := v\<rparr> | None \<Rightarrow> entry);
          entry = (case assertString (source ''kubernetes_labels_openchoreo_dev_project_uid'') of
                     Some v \<Rightarrow> entry\<lparr>ProjectID := v\<rparr> | None \<Rightarrow> entry);
          entry = (case assertString (source ''kubernetes_namespace_name'') of
                     Some v \<Rightarrow> entry\<lparr>Namespace := v\<rparr> | None \<Rightarrow> entry);
          entry = (case assertString (source ''kubernetes_pod_id'') of
                     Some v \<Rightarrow> entry\<lparr>PodID := v\<rparr> | None \<Rightarrow> entry);
          entry = (case assertString (source ''kubernetes_container_name'') of
                     Some v \<Rightarrow> entry\<lparr>ContainerName := v\<rparr> | None \<Rightarrow> entry);
          entry = (case assertMap (source ''labels'') of
                     Some labels \<Rightarrow> entry\<lparr>Labels := copyLabels labels (Labels entry)\<rparr>
                   | None \<Rightarrow> entry)
      in entry)"

definition executeSearchQuery ::
  "('b, 'f) Env \<Rightarrow> Client \<Rightarrow> string \<Rightarrow> 'b net
     \<Rightarrow> (Error + 'f OpenObserveResponse) \<times> 'b net" where
  "executeSearchQuery env c queryJSON w =
     (let url = baseURL c @ ''/api/'' @ org c @ ''/_search''
      in if \<not> url_parses env url then (Inl ErrCreateRequest, w)
         else
           (case Do env \<lparr>req_method = ''POST'', req_url = url, req_body = Some queryJSON,
                          req_content_type = Some ''application/json'',
                          req_basic_auth = (user c, token c)\<rparr> w of
              (DoFailed, w') \<Rightarrow> (Inl ErrExecuteRequest, w')
            | (ReadFailed, w') \<Rightarrow> (Inl ErrReadBody, w')
            | (Replied statusCode body, w') \<Rightarrow>
                if statusCode \<noteq> 200 then (Inl (ErrStatus statusCode body), w')
                else
                  (case json_Unmarshal_search env body of
                     None \<Rightarrow> (Inl ErrUnmarshal, w')
                   | Some openObserveResp \<Rightarrow> (Inr openObserveResp, w'))))"

text \<open>The body of the loop over the hits in \<open>GetComponentLogs\<close>.\<close>

definition hitEntry :: "('b, 'f) Env \<Rightarrow> (string \<Rightarrow> 'f any option) \<Rightarrow> ComponentLogsEntry" where
  "hitEntry env hit =
     (let timestamp = (case assertFloat64 (hit ''_timestamp'') of
                         Some ts \<Rightarrow> float64_to_int64 env ts
                       | None \<Rightarrow> 0)
      in parseApplicationLogEntry timestamp hit)"

definition GetComponentLogs ::
  "('b, 'f) Env \<Rightarrow> Client \<Rightarrow> ComponentLogsParams \<Rightarrow> 'b net
     \<Rightarrow> (Error + ComponentLogsResult) \<times> 'b net" where
  "GetComponentLogs env c params w =
     (case generateComponentLogsQuery (json_Marshal env) params (stream c) of
        None \<Rightarrow> (Inl ErrMarshalQuery, w)
      | Some queryJSON \<Rightarrow>
          (case executeSearchQuery env c queryJSON w of
             (Inl err, w') \<Rightarrow> (Inl err, w')
           | (Inr openObserveResp, w') \<Rightarrow>
               (Inr \<lparr>Logs = map (hitEntry env) (Hits openObserveResp),
                     TotalCount = Total openObserveResp,
                     Took = OpenObserveResponse.Took openObserveResp\<rparr>, w')))"

section \<open>Request handlers\<close>


section \<open>The specification's terms\<close>

text \<open>
  The text under a key of a hit as the specification wants it normalised: the string
  stored there, the empty string where the key is missing or holds anything else.
  Likewise the string-valued entries of the nested label object.
\<close>

definition spec_text :: "(string \<Rightarrow> 'f any option) \<Rightarrow> string \<Rightarrow> string" where
  "spec_text hit k = (case hit k of Some (AString s) \<Rightarrow> s | _ \<Rightarrow> [])"

definition spec_labels :: "(string \<Rightarrow> 'f any option) \<Rightarrow> string \<Rightarrow> string option" where
  "spec_labels hit k =
     (case hit ''labels'' of
        Some (AMap m) \<Rightarrow> (case m k of Some (AString s) \<Rightarrow> Some s | _ \<Rightarrow> None)
      | _ \<Rightarrow> None)"

definition epoch :: Time where
  "epoch = \<lparr>unixSec = 0, nsec = 0\<rparr>"

text \<open>An equality of a column with a quoted literal, and a parenthesised OR-group.\<close>

definition spec_equality :: "string \<Rightarrow> string \<Rightarrow> string" where
  "spec_equality column v = column @ '' = '' @ [quote] @ escapeSQLString v @ [quote]"

definition spec_or_group :: "string list \<Rightarrow> string" where
  "spec_or_group cs = ''('' @ Join cs '' OR '' @ '')''"

text \<open>A field of a nested object of a document.\<close>

definition field2 :: "json \<Rightarrow> string \<Rightarrow> string \<Rightarrow> json option" where
  "field2 d k1 k2 = (case field d k1 of Some inner \<Rightarrow> field inner k2 | None \<Rightarrow> None)"

section \<open>Worked inputs\<close>

text \<open>
  The requests of the specification's end-to-end scenarios, decoded. Scenario 1: project
  \<open>p1\<close>, environment \<open>e1\<close>, from 2024-01-01T00:00:00Z to 2024-01-02T00:00:00Z, nothing
  else given. Scenario 3: the alert body with search pattern \<open>ERROR\<close>, threshold 10,
  duration 5 and frequency 1, which carries no name.
\<close>

definition scenario1 :: ComponentLogsParams where
  "scenario1 =
     \<lparr>ComponentIDs = [], ComponentLogsParams.EnvironmentID = ''e1'',
      ComponentLogsParams.ProjectID = ''p1'',
      StartTime = \<lparr>unixSec = 1704067200, nsec = 0\<rparr>,
      EndTime = \<lparr>unixSec = 1704153600, nsec = 0\<rparr>,
      SearchPhrase = [], LogLevels = [], Limit = 0, SortOrder = []\<rparr>"

definition scenario3 :: LogAlertParams where
  "scenario3 =
     \<lparr>Name = [], SearchPattern = ''ERROR'', ThresholdValue = 10, Duration = 5, Frequency = 1\<rparr>"

text \<open>
  A hit with wrongly typed fields: the level and the timestamp are not of the expected
  type, and one label is a number.
\<close>

definition odd_hit :: "string \<Rightarrow> unit any option" where
  "odd_hit =
     [''log'' \<mapsto> AString ''hello'',
      ''logLevel'' \<mapsto> AFloat64 (),
      ''_timestamp'' \<mapsto> AString ''yesterday'',
      ''labels'' \<mapsto> AMap [''app'' \<mapsto> AString ''web'', ''replicas'' \<mapsto> AFloat64 ()]]"

text \<open>
  A stub backend that counts the requests it has answered: it lists four alerts, two of
  them named \<open>foo\<close>, answers a search with two hits, accepts a created alert with 201
  and a deletion with 204. The stub encoder returns the name found in the document, the
  stub decoder always reads the body of scenario 3 with a name of its own.
\<close>

definition stub_env :: "(nat, unit) Env" where
  "stub_env =
     \<lparr>roundTrip = (\<lambda>b r.
        (if req_method r = ''GET'' then Replied 200 ''listing''
         else if req_url r = ''http://oo/api/default/_search'' then Replied 200 ''hits''
         else if req_method r = ''POST'' then Replied 201 []
         else Replied 204 [], Suc b)),
      url_parses = (\<lambda>u. True),
      json_Marshal = (\<lambda>d. case field d ''name'' of Some (JString n) \<Rightarrow> Some n | _ \<Rightarrow> Some []),
      json_Unmarshal_alerts = (\<lambda>body.
        Some [\<lparr>alert_id = ''id-1'', name = ''Foo''\<rparr>, \<lparr>alert_id = ''id-2'', name = ''foo-bar''\<rparr>,
              \<lparr>alert_id = ''id-3'', name = ''foo''\<rparr>, \<lparr>alert_id = ''id-4'', name = ''foo''\<rparr>]),
      json_Unmarshal_search = (\<lambda>body.
        Some \<lparr>OpenObserveResponse.Took = 1, Hits = [odd_hit, Map.empty], Total = 2\<rparr>),
      json_Decode_alert = (\<lambda>body. Some (scenario3\<lparr>Name := ''from-body''\<rparr>)),
      float64_to_int64 = (\<lambda>f. 0)\<rparr>"

definition stub_client :: Client where
  "stub_client =
     \<lparr>baseURL = ''http://oo'', org = ''default'', stream = ''default'', user = ''u'',
      token = ''t''\<rparr>"

text \<open>The three alert requests, as the client builds them.\<close>

abbreviation listAlertsRequest :: "Client \<Rightarrow> Request" where
  "listAlertsRequest c \<equiv>
     \<lparr>req_method = ''GET'', req_url = baseURL c @ ''/api/v2/'' @ org c @ ''/alerts'',
      req_body = None, req_content_type = None, req_basic_auth = (user c, token c)\<rparr>"

abbreviation deleteAlertRequest :: "Client \<Rightarrow> string \<Rightarrow> Request" where
  "deleteAlertRequest c alertID \<equiv>
     \<lparr>req_method = ''DELETE'', req_url = baseURL c @ ''/api/v2/'' @ org c @ ''/alerts/'' @ alertID,
      req_body = None, req_content_type = None, req_basic_auth = (user c, token c)\<rparr>"


section \<open>The JSON text of a document\<close>

text \<open>
  \<open>json.Marshal\<close> of the Go standard library (\<open>encoding/json\<close>, Go 1.22 and later), for the
  values of type \<open>json\<close>. Nothing here is code of the repository. The environments of the
  client leave the encoder open; \<open>go_Marshal\<close> is the encoder the service runs with.
\<close>

subsection \<open>UTF-8\<close>









subsection \<open>Strings\<close>








subsection \<open>Numbers, slices and maps\<close>








subsection \<open>Reading a JSON string\<close>






subsection \<open>The service's environment\<close>




section \<open>Auxiliary facts\<close>

subsection \<open>The escaping\<close>

lemma ReplaceAll_Nil: "ReplaceAll [] old new = []"
  by (simp add: ReplaceAll.simps)

lemma ReplaceAll_one_Cons:
  "ReplaceAll (x # xs) [c] new =
     (if x = c then new @ ReplaceAll xs [c] new else x # ReplaceAll xs [c] new)"
  by (subst ReplaceAll.simps) simp

lemma ReplaceAll_one:
  "ReplaceAll s [c] new = concat (map (\<lambda>x. if x = c then new else [x]) s)"
  by (induction s) (simp_all add: ReplaceAll_Nil ReplaceAll_one_Cons)

lemma ReplaceAll_two_hit:
  "ReplaceAll (c # c # xs) [c, c] new = new @ ReplaceAll xs [c, c] new"
  by (subst ReplaceAll.simps) simp

lemma ReplaceAll_two_miss:
  "x \<noteq> c \<Longrightarrow> ReplaceAll (x # xs) [c, c] new = x # ReplaceAll xs [c, c] new"
  by (subst ReplaceAll.simps) simp

lemma undouble:
  "ReplaceAll (concat (map (\<lambda>x. if x = c then [c, c] else [x]) s)) [c, c] [c] = s"
  by (induction s) (simp_all add: ReplaceAll_Nil ReplaceAll_two_hit ReplaceAll_two_miss)

lemma escapeSQLString_concat:
  "escapeSQLString v = concat (map spec_escape_char v)"
proof -
  have "concat (map (\<lambda>x. if x = quote then [quote, quote] else [x])
          (concat (map (\<lambda>x. if x = backslash then [backslash, backslash] else [x]) w)))
        = concat (map spec_escape_char w)" for w
    by (induction w) (simp_all add: spec_escape_char_def quote_def backslash_def)
  then show ?thesis
    by (simp add: escapeSQLString_def ReplaceAll_one)
qed

lemma spec_unescape_escape: "spec_unescape (escapeSQLString v) = v"
  by (simp add: spec_unescape_def escapeSQLString_def ReplaceAll_one undouble)

lemma literal_close_plain:
  "c \<noteq> quote \<Longrightarrow> c \<noteq> backslash \<Longrightarrow> t \<noteq> [] \<Longrightarrow>
     literal_close bs (c # t) = map_option Suc (literal_close bs t)"
  by (cases t) simp_all

lemma literal_close_quotes:
  "literal_close bs (quote # quote # t) = map_option (\<lambda>n. n + 2) (literal_close bs t)"
  by simp

lemma literal_close_backslashes:
  assumes "t \<noteq> []"
  shows "literal_close bs (backslash # backslash # t)
           = map_option (\<lambda>n. n + 2) (literal_close bs t)"
proof (cases bs)
  case True
  then show ?thesis by (simp add: backslash_def quote_def)
next
  case False
  obtain e es where t: "t = e # es"
    using assms by (cases t) auto
  have "literal_close bs (backslash # backslash # t)
          = map_option Suc (literal_close bs (backslash # t))"
    using False by (simp add: backslash_def quote_def)
  also have "literal_close bs (backslash # t) = map_option Suc (literal_close bs t)"
    using False by (simp add: t backslash_def quote_def)
  finally show ?thesis
    by (simp add: option.map_comp comp_def)
qed

lemma spec_escape_char_cases:
  "spec_escape_char quote = [quote, quote]"
  "spec_escape_char backslash = [backslash, backslash]"
  "c \<noteq> quote \<Longrightarrow> c \<noteq> backslash \<Longrightarrow> spec_escape_char c = [c]"
  by (simp_all add: spec_escape_char_def quote_def backslash_def)

lemma literal_close_escaped:
  assumes "rest = [] \<or> hd rest \<noteq> quote"
  shows "literal_close bs (concat (map spec_escape_char v) @ quote # rest)
           = Some (length (concat (map spec_escape_char v)))"
proof (induction v)
  case Nil
  from assms show ?case by (cases rest) auto
next
  case (Cons x xs)
  let ?t = "concat (map spec_escape_char xs) @ quote # rest"
  have ne: "?t \<noteq> []" by simp
  consider "x = quote" | "x = backslash" | "x \<noteq> quote" "x \<noteq> backslash"
    by blast
  then show ?case
  proof cases
    case 1
    then show ?thesis
      by (simp add: literal_close_quotes Cons.IH spec_escape_char_cases
          del: literal_close.simps)
  next
    case 2
    then show ?thesis
      by (simp add: literal_close_backslashes [OF ne] Cons.IH spec_escape_char_cases
          del: literal_close.simps)
  next
    case 3
    then show ?thesis
      by (simp add: literal_close_plain [OF 3 ne] Cons.IH spec_escape_char_cases
          del: literal_close.simps)
  qed
qed

subsection \<open>The rendered query\<close>

lemma spec_equality_fun:
  "spec_equality column = (\<lambda>v. column @ '' = '' @ [quote] @ escapeSQLString v @ [quote])"
  by (rule ext) (simp add: spec_equality_def)

lemma componentLogs_conditions_shape:
  "componentLogs_conditions p =
     [spec_equality ''kubernetes_labels_openchoreo_dev_project_uid''
        (ComponentLogsParams.ProjectID p),
      spec_equality ''kubernetes_labels_openchoreo_dev_environment_uid''
        (ComponentLogsParams.EnvironmentID p)]
     @ (if ComponentIDs p = [] then []
        else [spec_or_group (map (spec_equality ''kubernetes_labels_openchoreo_dev_component_uid'')
                (ComponentIDs p))])
     @ (if SearchPhrase p = [] then []
        else [''log LIKE '' @ [quote] @ ''%'' @ escapeSQLString (SearchPhrase p) @ ''%'' @ [quote]])
     @ (if LogLevels p = [] then []
        else [spec_or_group (map (spec_equality ''logLevel'') (LogLevels p))])"
  by (simp add: componentLogs_conditions_def spec_equality_fun spec_or_group_def Let_def)

lemma componentLogs_sql_shape:
  "componentLogs_sql p s =
     ''SELECT * FROM '' @ s @ '' WHERE '' @ Join (componentLogs_conditions p) '' AND ''
       @ (if SortOrder p = ''ASC'' \<or> SortOrder p = ''asc''
          then '' ORDER BY _timestamp ASC'' else '' ORDER BY _timestamp DESC'')"
  by (simp add: componentLogs_sql_def Let_def)

lemma escapeSQLString_plain:
  "backslash \<notin> set v \<Longrightarrow> quote \<notin> set v \<Longrightarrow> escapeSQLString v = v"
  by (induction v) (auto simp: escapeSQLString_concat spec_escape_char_def)

subsection \<open>Alerts\<close>

lemma scanAlerts_absent: "n \<notin> name ` set listing \<Longrightarrow> scanAlerts listing n = None"
  by (induction listing) auto

lemma scanAlerts_none: "scanAlerts listing n = None \<Longrightarrow> n \<notin> name ` set listing"
  by (induction listing) (auto split: if_splits)

lemma scanAlerts_first:
  "\<forall>x \<in> set pre. name x \<noteq> n \<Longrightarrow> name a = n \<Longrightarrow> scanAlerts (pre @ a # post) n = Some (alert_id a)"
  by (induction pre) auto

lemma scanAlerts_found:
  "scanAlerts listing n = Some i \<Longrightarrow> \<exists>a \<in> set listing. name a = n \<and> alert_id a = i"
  by (induction listing) (auto split: if_splits)

lemma getAlertIDByName_listed:
  assumes "url_parses env (baseURL c @ ''/api/v2/'' @ org c @ ''/alerts'')"
    and "roundTrip env b (listAlertsRequest c) = (Replied 200 body, b1)"
    and "json_Unmarshal_alerts env body = Some listing"
  shows "getAlertIDByName env c n (b, sent) =
           (case scanAlerts listing n of
              Some alertID \<Rightarrow> Inr alertID
            | None \<Rightarrow> Inl (ErrAlertNotFound n), (b1, sent @ [listAlertsRequest c]))"
  using assms by (simp add: getAlertIDByName_def Do_def Let_def split: option.splits)

lemma getAlertIDByName_trace:
  "getAlertIDByName env c n (b, sent) = (res, w') \<Longrightarrow>
     (w' = (b, sent) \<and> (\<exists>e. res = Inl e))
     \<or> (\<exists>ex b1. roundTrip env b (listAlertsRequest c) = (ex, b1)
           \<and> w' = (b1, sent @ [listAlertsRequest c])
           \<and> (\<forall>i. res = Inr i \<longrightarrow>
                (\<exists>body listing. ex = Replied 200 body
                   \<and> json_Unmarshal_alerts env body = Some listing
                   \<and> scanAlerts listing n = Some i)))"
  by (auto simp: getAlertIDByName_def Do_def Let_def
      split: if_splits prod.splits Exchange.splits option.splits)

lemma getAlertIDByName_not_found:
  "fst (getAlertIDByName env c n (b, sent)) = Inl (ErrAlertNotFound m) \<Longrightarrow>
     m = n \<and> (\<exists>body b1 listing.
              roundTrip env b (listAlertsRequest c) = (Replied 200 body, b1)
              \<and> json_Unmarshal_alerts env body = Some listing
              \<and> n \<notin> name ` set listing)"
  by (auto simp: getAlertIDByName_def Do_def Let_def dest: scanAlerts_none
      split: if_splits prod.splits Exchange.splits option.splits)

lemma DeleteAlert_trace:
  "\<exists>new. snd (snd (DeleteAlert env c n (b, sent))) = sent @ new
     \<and> (new = [] \<or> new = [listAlertsRequest c]
        \<or> (\<exists>body b1 listing a.
              roundTrip env b (listAlertsRequest c) = (Replied 200 body, b1)
              \<and> json_Unmarshal_alerts env body = Some listing
              \<and> a \<in> set listing \<and> name a = n
              \<and> scanAlerts listing n = Some (alert_id a)
              \<and> new = [listAlertsRequest c, deleteAlertRequest c (alert_id a)]))"
proof -
  obtain res w1 where g: "getAlertIDByName env c n (b, sent) = (res, w1)"
    by (cases "getAlertIDByName env c n (b, sent)") auto
  show ?thesis
  proof (cases res)
    case (Inl e)
    with g getAlertIDByName_trace [OF g] show ?thesis
      by (auto simp: DeleteAlert_def)
  next
    case (Inr i)
    with getAlertIDByName_trace [OF g] obtain body b1 listing
      where rt: "roundTrip env b (listAlertsRequest c) = (Replied 200 body, b1)"
        and w1: "w1 = (b1, sent @ [listAlertsRequest c])"
        and un: "json_Unmarshal_alerts env body = Some listing"
        and sc: "scanAlerts listing n = Some i"
      by auto
    from scanAlerts_found [OF sc] obtain a
      where a: "a \<in> set listing" "name a = n" "alert_id a = i"
      by auto
    have "snd (snd (DeleteAlert env c n (b, sent))) = sent @ [listAlertsRequest c]
          \<or> snd (snd (DeleteAlert env c n (b, sent)))
              = sent @ [listAlertsRequest c, deleteAlertRequest c i]"
      using g Inr w1
      by (auto simp: DeleteAlert_def Do_def Let_def split: prod.splits Exchange.splits)
    with rt un sc a show ?thesis
      by auto
  qed
qed




subsection \<open>The JSON text of a string\<close>





























subsection \<open>The JSON text of an alert document\<close>












subsection \<open>Normalisation of hits\<close>

text \<open>
  Each step of \<open>parseApplicationLogEntry\<close> as one update of the entry, so that the steps
  compose without the entry being copied into both branches.
\<close>

lemma parse_steps:
  "(case x of Some v \<Rightarrow> e\<lparr>Log := v\<rparr> | None \<Rightarrow> e)
     = Log_update (\<lambda>old. case x of Some v \<Rightarrow> v | None \<Rightarrow> old) e"
  "(case x of Some v \<Rightarrow> e\<lparr>LogLevel := v\<rparr> | None \<Rightarrow> e)
     = LogLevel_update (\<lambda>old. case x of Some v \<Rightarrow> v | None \<Rightarrow> old) e"
  "(case x of Some v \<Rightarrow> e\<lparr>ComponentID := v\<rparr> | None \<Rightarrow> e)
     = ComponentID_update (\<lambda>old. case x of Some v \<Rightarrow> v | None \<Rightarrow> old) e"
  "(case x of Some v \<Rightarrow> e\<lparr>EnvironmentID := v\<rparr> | None \<Rightarrow> e)
     = EnvironmentID_update (\<lambda>old. case x of Some v \<Rightarrow> v | None \<Rightarrow> old) e"
  "(case x of Some v \<Rightarrow> e\<lparr>ProjectID := v\<rparr> | None \<Rightarrow> e)
     = ProjectID_update (\<lambda>old. case x of Some v \<Rightarrow> v | None \<Rightarrow> old) e"
  "(case x of Some v \<Rightarrow> e\<lparr>Namespace := v\<rparr> | None \<Rightarrow> e)
     = Namespace_update (\<lambda>old. case x of Some v \<Rightarrow> v | None \<Rightarrow> old) e"
  "(case x of Some v \<Rightarrow> e\<lparr>PodID := v\<rparr> | None \<Rightarrow> e)
     = PodID_update (\<lambda>old. case x of Some v \<Rightarrow> v | None \<Rightarrow> old) e"
  "(case x of Some v \<Rightarrow> e\<lparr>ContainerName := v\<rparr> | None \<Rightarrow> e)
     = ContainerName_update (\<lambda>old. case x of Some v \<Rightarrow> v | None \<Rightarrow> old) e"
  "(case y of Some labels \<Rightarrow> e\<lparr>Labels := copyLabels labels (Labels e)\<rparr> | None \<Rightarrow> e)
     = Labels_update (\<lambda>old. case y of Some labels \<Rightarrow> copyLabels labels old | None \<Rightarrow> old) e"
  for e :: ComponentLogsEntry
  by (simp_all split: option.splits)

lemma assertString_text:
  "(case assertString (hit k) of Some v \<Rightarrow> v | None \<Rightarrow> []) = spec_text hit k"
  by (simp add: assertString_def spec_text_def split: option.splits any.splits)

lemma copyLabels_empty:
  "(case assertMap (hit ''labels'') of
      Some labels \<Rightarrow> copyLabels labels Map.empty
    | None \<Rightarrow> Map.empty)
     = spec_labels hit"
  by (rule ext)
     (simp add: assertMap_def assertString_def copyLabels_def spec_labels_def
        split: option.splits any.splits)

lemma parseApplicationLogEntry_value:
  "parseApplicationLogEntry ts hit =
     \<lparr>Timestamp = time_UnixMicro ts,
      Log = spec_text hit ''log'',
      LogLevel = spec_text hit ''logLevel'',
      ComponentID = spec_text hit ''kubernetes_labels_openchoreo_dev_component_uid'',
      EnvironmentID = spec_text hit ''kubernetes_labels_openchoreo_dev_environment_uid'',
      ProjectID = spec_text hit ''kubernetes_labels_openchoreo_dev_project_uid'',
      Namespace = spec_text hit ''kubernetes_namespace_name'',
      PodID = spec_text hit ''kubernetes_pod_id'',
      ContainerName = spec_text hit ''kubernetes_container_name'',
      Labels = spec_labels hit\<rparr>"
  unfolding parseApplicationLogEntry_def parse_steps Let_def
  by (simp add: assertString_text copyLabels_empty)

lemma hitEntry_value:
  "hitEntry env hit =
     \<lparr>Timestamp = (case hit ''_timestamp'' of
                     Some (AFloat64 ts) \<Rightarrow> time_UnixMicro (float64_to_int64 env ts)
                   | _ \<Rightarrow> epoch),
      Log = spec_text hit ''log'',
      LogLevel = spec_text hit ''logLevel'',
      ComponentID = spec_text hit ''kubernetes_labels_openchoreo_dev_component_uid'',
      EnvironmentID = spec_text hit ''kubernetes_labels_openchoreo_dev_environment_uid'',
      ProjectID = spec_text hit ''kubernetes_labels_openchoreo_dev_project_uid'',
      Namespace = spec_text hit ''kubernetes_namespace_name'',
      PodID = spec_text hit ''kubernetes_pod_id'',
      ContainerName = spec_text hit ''kubernetes_container_name'',
      Labels = spec_labels hit\<rparr>"
proof -
  have "time_UnixMicro 0 = epoch"
    by (simp add: time_UnixMicro_def Unix_def epoch_def)
  then show ?thesis
    by (simp add: hitEntry_def parseApplicationLogEntry_value assertFloat64_def Let_def
        split: option.splits any.splits)
qed

section \<open>The claims\<close>

text \<open>
  C1. For every input string, \<open>escapeSQLString\<close> replaces each backslash by two and then
  each single quote by two: it is the character-wise escaping of the specification. The
  input is recovered from the escaped form by reversing the two substitutions, so the
  escaping is injective. Embedded between single quotes the escaped form does not end the
  literal early: whenever the text after the closing quote does not itself begin with a
  quote, the quote that closes the literal is the one placed after the escaped form, for a
  reader that knows doubled quotes only and for one that also knows backslash escapes.
\<close>

theorem escapeSQLString_recoverable:
  "escapeSQLString v
     = ReplaceAll (ReplaceAll v [backslash] [backslash, backslash]) [quote] [quote, quote]
   \<and> escapeSQLString v = concat (map spec_escape_char v)
   \<and> spec_unescape (escapeSQLString v) = v
   \<and> (escapeSQLString v = escapeSQLString w \<longrightarrow> v = w)
   \<and> (rest = [] \<or> hd rest \<noteq> quote \<longrightarrow>
        literal_close bs (escapeSQLString v @ quote # rest) = Some (length (escapeSQLString v)))"
proof (intro conjI impI)
  show "escapeSQLString v
     = ReplaceAll (ReplaceAll v [backslash] [backslash, backslash]) [quote] [quote, quote]"
    by (simp add: escapeSQLString_def)
  show "escapeSQLString v = concat (map spec_escape_char v)"
    by (rule escapeSQLString_concat)
  show "spec_unescape (escapeSQLString v) = v"
    by (rule spec_unescape_escape)
  show "v = w" if "escapeSQLString v = escapeSQLString w"
  proof -
    have "spec_unescape (escapeSQLString v) = spec_unescape (escapeSQLString w)"
      using that by simp
    then show ?thesis by (simp only: spec_unescape_escape)
  qed
  show "literal_close bs (escapeSQLString v @ quote # rest) = Some (length (escapeSQLString v))"
    if "rest = [] \<or> hd rest \<noteq> quote"
    using literal_close_escaped [OF that] by (simp only: escapeSQLString_concat)
qed

theorem escapeSQLString_recoverable_witness:
  "escapeSQLString [CHR ''a'', quote, backslash, CHR ''b'']
     = [CHR ''a'', quote, quote, backslash, backslash, CHR ''b'']
   \<and> spec_unescape [CHR ''a'', quote, quote, backslash, backslash, CHR ''b'']
     = [CHR ''a'', quote, backslash, CHR ''b'']
   \<and> hd '')'' \<noteq> quote
   \<and> literal_close True ([CHR ''a'', quote, quote, backslash, backslash, CHR ''b''] @ quote # '')'')
     = Some 6"
proof -
  let ?v = "[CHR ''a'', quote, backslash, CHR ''b'']"
  note inst = escapeSQLString_recoverable [of ?v ?v "'')''" True]
  have h: "hd '')'' \<noteq> quote"
    by (simp add: quote_def)
  from inst have "escapeSQLString ?v = concat (map spec_escape_char ?v)"
    by blast
  then have e: "escapeSQLString ?v = [CHR ''a'', quote, quote, backslash, backslash, CHR ''b'']"
    by (simp add: spec_escape_char_def quote_def backslash_def)
  from inst have "spec_unescape (escapeSQLString ?v) = ?v"
    by blast
  moreover from inst h
  have "literal_close True (escapeSQLString ?v @ quote # '')'') = Some (length (escapeSQLString ?v))"
    by blast
  ultimately show ?thesis
    using h by (simp add: e)
qed

text \<open>
  C2. Deleting is two-phase. When the listing is fetched (status 200, a body that
  decodes) and no alert in it has the queried name, \<open>getAlertIDByName\<close> fails with the
  not-found error, \<open>DeleteAlert\<close> returns that error wrapped, and the only request made is
  the GET of the listing. In every run of \<open>DeleteAlert\<close> the requests made are none, the
  GET alone, or the GET followed by one DELETE; in the last case the listing was fetched
  and holds an alert whose name equals the queried name, and the DELETE goes to the ID of
  the alert the scan resolved. The not-found error is returned in no other situation:
  not when the request cannot be built or sent, the body cannot be read or decoded, or
  the status is not 200.
\<close>

theorem delete_alert_two_phase:
  "(url_parses env (baseURL c @ ''/api/v2/'' @ org c @ ''/alerts'')
      \<and> roundTrip env b (listAlertsRequest c) = (Replied 200 body, b1)
      \<and> json_Unmarshal_alerts env body = Some listing
      \<and> n \<notin> name ` set listing
    \<longrightarrow> getAlertIDByName env c n (b, sent)
          = (Inl (ErrAlertNotFound n), (b1, sent @ [listAlertsRequest c]))
       \<and> DeleteAlert env c n (b, sent)
          = (Some (ErrFindAlert n (ErrAlertNotFound n)), (b1, sent @ [listAlertsRequest c])))
   \<and> (\<exists>new. snd (snd (DeleteAlert env c n (b, sent))) = sent @ new
        \<and> (new = [] \<or> new = [listAlertsRequest c]
           \<or> (\<exists>body b1 listing a.
                 roundTrip env b (listAlertsRequest c) = (Replied 200 body, b1)
                 \<and> json_Unmarshal_alerts env body = Some listing
                 \<and> a \<in> set listing \<and> name a = n
                 \<and> scanAlerts listing n = Some (alert_id a)
                 \<and> new = [listAlertsRequest c, deleteAlertRequest c (alert_id a)])))
   \<and> (fst (getAlertIDByName env c n (b, sent)) = Inl (ErrAlertNotFound m)
      \<longrightarrow> m = n \<and> (\<exists>body b1 listing.
                       roundTrip env b (listAlertsRequest c) = (Replied 200 body, b1)
                       \<and> json_Unmarshal_alerts env body = Some listing
                       \<and> n \<notin> name ` set listing))"
proof (intro conjI impI)
  assume h: "url_parses env (baseURL c @ ''/api/v2/'' @ org c @ ''/alerts'')
      \<and> roundTrip env b (listAlertsRequest c) = (Replied 200 body, b1)
      \<and> json_Unmarshal_alerts env body = Some listing
      \<and> n \<notin> name ` set listing"
  then have none: "scanAlerts listing n = None"
    by (simp add: scanAlerts_absent)
  from h show g: "getAlertIDByName env c n (b, sent)
          = (Inl (ErrAlertNotFound n), (b1, sent @ [listAlertsRequest c]))"
    by (simp add: getAlertIDByName_listed none)
  show "DeleteAlert env c n (b, sent)
          = (Some (ErrFindAlert n (ErrAlertNotFound n)), (b1, sent @ [listAlertsRequest c]))"
    by (simp add: DeleteAlert_def g)
next
  show "\<exists>new. snd (snd (DeleteAlert env c n (b, sent))) = sent @ new
        \<and> (new = [] \<or> new = [listAlertsRequest c]
           \<or> (\<exists>body b1 listing a.
                 roundTrip env b (listAlertsRequest c) = (Replied 200 body, b1)
                 \<and> json_Unmarshal_alerts env body = Some listing
                 \<and> a \<in> set listing \<and> name a = n
                 \<and> scanAlerts listing n = Some (alert_id a)
                 \<and> new = [listAlertsRequest c, deleteAlertRequest c (alert_id a)]))"
    by (rule DeleteAlert_trace)
next
  assume "fst (getAlertIDByName env c n (b, sent)) = Inl (ErrAlertNotFound m)"
  then have r: "m = n \<and> (\<exists>body b1 listing.
              roundTrip env b (listAlertsRequest c) = (Replied 200 body, b1)
              \<and> json_Unmarshal_alerts env body = Some listing
              \<and> n \<notin> name ` set listing)"
    by (rule getAlertIDByName_not_found)
  from r show "m = n" by blast
  from r show "\<exists>body b1 listing.
              roundTrip env b (listAlertsRequest c) = (Replied 200 body, b1)
              \<and> json_Unmarshal_alerts env body = Some listing
              \<and> n \<notin> name ` set listing"
    by blast
qed

theorem delete_alert_two_phase_witness:
  "getAlertIDByName stub_env stub_client ''fo'' (0, [])
     = (Inl (ErrAlertNotFound ''fo''), (1, [listAlertsRequest stub_client]))
   \<and> DeleteAlert stub_env stub_client ''fo'' (0, [])
     = (Some (ErrFindAlert ''fo'' (ErrAlertNotFound ''fo'')), (1, [listAlertsRequest stub_client]))"
proof -
  let ?listing = "[\<lparr>alert_id = ''id-1'', name = ''Foo''\<rparr>, \<lparr>alert_id = ''id-2'', name = ''foo-bar''\<rparr>,
          \<lparr>alert_id = ''id-3'', name = ''foo''\<rparr>, \<lparr>alert_id = ''id-4'', name = ''foo''\<rparr>]"
  have h: "url_parses stub_env (baseURL stub_client @ ''/api/v2/'' @ org stub_client @ ''/alerts'')
      \<and> roundTrip stub_env 0 (listAlertsRequest stub_client) = (Replied 200 ''listing'', 1)
      \<and> json_Unmarshal_alerts stub_env ''listing'' = Some ?listing
      \<and> ''fo'' \<notin> name ` set ?listing"
    by (simp add: stub_env_def)
  have "getAlertIDByName stub_env stub_client ''fo'' (0, [])
          = (Inl (ErrAlertNotFound ''fo''), (1, [] @ [listAlertsRequest stub_client]))
       \<and> DeleteAlert stub_env stub_client ''fo'' (0, [])
          = (Some (ErrFindAlert ''fo'' (ErrAlertNotFound ''fo'')),
             (1, [] @ [listAlertsRequest stub_client]))"
    using delete_alert_two_phase
      [where env = stub_env and c = stub_client and b = 0 and body = "''listing''" and ?b1.0 = 1
         and listing = ?listing and n = "''fo''" and sent = "[]"] h
    by blast
  then show ?thesis
    by simp
qed

text \<open>
  C3. Every hit is turned into an entry; the function has no error to return. Each text
  field is the string stored under its key, or the empty string where the key is missing
  or holds something that is not a string. The labels are the string-valued entries of
  the nested \<open>labels\<close> object, and none where that object is missing or not an object.
  The timestamp is the epoch where \<open>_timestamp\<close> is missing or not a number. The hit
  without any field gives the entry of empty strings, no labels and the epoch. A search
  that succeeds returns one entry for each hit, whatever the hits hold.
\<close>

theorem hit_normalisation_total:
  "hitEntry env hit =
     \<lparr>Timestamp = (case hit ''_timestamp'' of
                     Some (AFloat64 ts) \<Rightarrow> time_UnixMicro (float64_to_int64 env ts)
                   | _ \<Rightarrow> epoch),
      Log = spec_text hit ''log'',
      LogLevel = spec_text hit ''logLevel'',
      ComponentID = spec_text hit ''kubernetes_labels_openchoreo_dev_component_uid'',
      EnvironmentID = spec_text hit ''kubernetes_labels_openchoreo_dev_environment_uid'',
      ProjectID = spec_text hit ''kubernetes_labels_openchoreo_dev_project_uid'',
      Namespace = spec_text hit ''kubernetes_namespace_name'',
      PodID = spec_text hit ''kubernetes_pod_id'',
      ContainerName = spec_text hit ''kubernetes_container_name'',
      Labels = spec_labels hit\<rparr>
   \<and> (\<forall>k. (\<forall>s. hit k \<noteq> Some (AString s)) \<longrightarrow> spec_text hit k = [])
   \<and> (\<forall>k s. hit k = Some (AString s) \<longrightarrow> spec_text hit k = s)
   \<and> (\<forall>k v. spec_labels hit k = Some v
          \<longleftrightarrow> (\<exists>m. hit ''labels'' = Some (AMap m) \<and> m k = Some (AString v)))
   \<and> ((\<forall>ts. hit ''_timestamp'' \<noteq> Some (AFloat64 ts))
        \<longrightarrow> Timestamp (hitEntry env hit) = epoch)
   \<and> hitEntry env Map.empty =
       \<lparr>Timestamp = epoch, Log = [], LogLevel = [], ComponentID = [], EnvironmentID = [],
        ProjectID = [], Namespace = [], PodID = [], ContainerName = [], Labels = Map.empty\<rparr>
   \<and> (generateComponentLogsQuery (json_Marshal env) p (stream c) = Some q
        \<and> executeSearchQuery env c q w = (Inr resp, w')
      \<longrightarrow> GetComponentLogs env c p w
           = (Inr \<lparr>Logs = map (hitEntry env) (Hits resp), TotalCount = Total resp,
                   Took = OpenObserveResponse.Took resp\<rparr>, w'))"
proof (intro conjI allI impI)
  show "hitEntry env hit =
     \<lparr>Timestamp = (case hit ''_timestamp'' of
                     Some (AFloat64 ts) \<Rightarrow> time_UnixMicro (float64_to_int64 env ts)
                   | _ \<Rightarrow> epoch),
      Log = spec_text hit ''log'',
      LogLevel = spec_text hit ''logLevel'',
      ComponentID = spec_text hit ''kubernetes_labels_openchoreo_dev_component_uid'',
      EnvironmentID = spec_text hit ''kubernetes_labels_openchoreo_dev_environment_uid'',
      ProjectID = spec_text hit ''kubernetes_labels_openchoreo_dev_project_uid'',
      Namespace = spec_text hit ''kubernetes_namespace_name'',
      PodID = spec_text hit ''kubernetes_pod_id'',
      ContainerName = spec_text hit ''kubernetes_container_name'',
      Labels = spec_labels hit\<rparr>"
    by (rule hitEntry_value)
next
  fix k
  assume "\<forall>s. hit k \<noteq> Some (AString s)"
  then show "spec_text hit k = []"
    by (simp add: spec_text_def split: option.splits any.splits)
next
  fix k s
  assume "hit k = Some (AString s)"
  then show "spec_text hit k = s"
    by (simp add: spec_text_def)
next
  fix k v
  show "spec_labels hit k = Some v
          \<longleftrightarrow> (\<exists>m. hit ''labels'' = Some (AMap m) \<and> m k = Some (AString v))"
    by (auto simp: spec_labels_def split: option.splits any.splits)
next
  assume "\<forall>ts. hit ''_timestamp'' \<noteq> Some (AFloat64 ts)"
  then show "Timestamp (hitEntry env hit) = epoch"
    by (simp add: hitEntry_value split: option.splits any.splits)
next
  show "hitEntry env Map.empty =
       \<lparr>Timestamp = epoch, Log = [], LogLevel = [], ComponentID = [], EnvironmentID = [],
        ProjectID = [], Namespace = [], PodID = [], ContainerName = [], Labels = Map.empty\<rparr>"
    by (simp add: hitEntry_value spec_text_def) (rule ext, simp add: spec_labels_def)
next
  assume "generateComponentLogsQuery (json_Marshal env) p (stream c) = Some q
        \<and> executeSearchQuery env c q w = (Inr resp, w')"
  then show "GetComponentLogs env c p w
           = (Inr \<lparr>Logs = map (hitEntry env) (Hits resp), TotalCount = Total resp,
                   Took = OpenObserveResponse.Took resp\<rparr>, w')"
    by (simp add: GetComponentLogs_def)
qed

theorem hit_normalisation_total_witness:
  "Log (hitEntry stub_env odd_hit) = ''hello''
   \<and> LogLevel (hitEntry stub_env odd_hit) = []
   \<and> Labels (hitEntry stub_env odd_hit) ''app'' = Some ''web''
   \<and> Labels (hitEntry stub_env odd_hit) ''replicas'' = None
   \<and> Timestamp (hitEntry stub_env odd_hit) = epoch
   \<and> (case fst (GetComponentLogs stub_env stub_client scenario1 (0, [])) of
         Inl err \<Rightarrow> False
       | Inr result \<Rightarrow> map Log (Logs result) = [''hello'', []]
                      \<and> map Timestamp (Logs result) = [epoch, epoch])"
proof -
  note inst = hit_normalisation_total
    [where env = stub_env and hit = odd_hit and c = stub_client and p = scenario1 and q = "[]"
       and w = "(0, [])"
       and resp = "\<lparr>OpenObserveResponse.Took = 1, Hits = [odd_hit, Map.empty], Total = 2\<rparr>"
       and w' = "(1, [\<lparr>req_method = ''POST'', req_url = ''http://oo/api/default/_search'',
                       req_body = Some [], req_content_type = Some ''application/json'',
                       req_basic_auth = (''u'', ''t'')\<rparr>])"]
  have ts: "\<forall>ts. odd_hit ''_timestamp'' \<noteq> Some (AFloat64 ts)"
    by (simp add: odd_hit_def)
  have q: "generateComponentLogsQuery (json_Marshal stub_env) scenario1 (stream stub_client)
             = Some []"
    by (simp add: generateComponentLogsQuery_def stub_env_def componentLogs_query_def)
  have s: "executeSearchQuery stub_env stub_client [] (0, [])
             = (Inr \<lparr>OpenObserveResponse.Took = 1, Hits = [odd_hit, Map.empty], Total = 2\<rparr>,
                (1, [\<lparr>req_method = ''POST'', req_url = ''http://oo/api/default/_search'',
                       req_body = Some [], req_content_type = Some ''application/json'',
                       req_basic_auth = (''u'', ''t'')\<rparr>]))"
    by (simp add: executeSearchQuery_def stub_env_def stub_client_def Do_def Let_def)
  from inst ts have t: "Timestamp (hitEntry stub_env odd_hit) = epoch"
    by blast
  from inst have e: "hitEntry stub_env odd_hit =
     \<lparr>Timestamp = (case odd_hit ''_timestamp'' of
                     Some (AFloat64 ts) \<Rightarrow> time_UnixMicro (float64_to_int64 stub_env ts)
                   | _ \<Rightarrow> epoch),
      Log = spec_text odd_hit ''log'',
      LogLevel = spec_text odd_hit ''logLevel'',
      ComponentID = spec_text odd_hit ''kubernetes_labels_openchoreo_dev_component_uid'',
      EnvironmentID = spec_text odd_hit ''kubernetes_labels_openchoreo_dev_environment_uid'',
      ProjectID = spec_text odd_hit ''kubernetes_labels_openchoreo_dev_project_uid'',
      Namespace = spec_text odd_hit ''kubernetes_namespace_name'',
      PodID = spec_text odd_hit ''kubernetes_pod_id'',
      ContainerName = spec_text odd_hit ''kubernetes_container_name'',
      Labels = spec_labels odd_hit\<rparr>"
    by blast
  from inst have m: "hitEntry stub_env Map.empty =
       \<lparr>Timestamp = epoch, Log = [], LogLevel = [], ComponentID = [], EnvironmentID = [],
        ProjectID = [], Namespace = [], PodID = [], ContainerName = [], Labels = Map.empty\<rparr>"
    by blast
  from inst q s have g: "GetComponentLogs stub_env stub_client scenario1 (0, [])
           = (Inr \<lparr>Logs = map (hitEntry stub_env) [odd_hit, Map.empty], TotalCount = 2,
                   Took = 1\<rparr>,
              (1, [\<lparr>req_method = ''POST'', req_url = ''http://oo/api/default/_search'',
                       req_body = Some [], req_content_type = Some ''application/json'',
                       req_basic_auth = (''u'', ''t'')\<rparr>]))"
    by simp
  have l: "Log (hitEntry stub_env odd_hit) = ''hello''"
    "LogLevel (hitEntry stub_env odd_hit) = []"
    "Labels (hitEntry stub_env odd_hit) ''app'' = Some ''web''"
    "Labels (hitEntry stub_env odd_hit) ''replicas'' = None"
    unfolding e by (simp_all add: spec_text_def spec_labels_def odd_hit_def)
  show ?thesis
    by (simp add: l t g m)
qed

text \<open>
  C4. With an empty component-id list the conditions of the filter are the project-id and
  the environment-id equality, followed by the search-phrase condition and the log-level
  group where those are given, and nothing else: there is no component-id clause. With a
  non-empty list the OR-group of the component-id equalities is the third condition. The
  conditions are joined with \<open>AND\<close> into the SQL text of the query document.
\<close>

theorem component_clause_iff_ids:
  "(ComponentIDs p = [] \<longrightarrow>
      componentLogs_conditions p =
        [spec_equality ''kubernetes_labels_openchoreo_dev_project_uid''
           (ComponentLogsParams.ProjectID p),
         spec_equality ''kubernetes_labels_openchoreo_dev_environment_uid''
           (ComponentLogsParams.EnvironmentID p)]
        @ (if SearchPhrase p = [] then []
           else [''log LIKE '' @ [quote] @ ''%'' @ escapeSQLString (SearchPhrase p) @ ''%''
                   @ [quote]])
        @ (if LogLevels p = [] then []
           else [spec_or_group (map (spec_equality ''logLevel'') (LogLevels p))]))
   \<and> (ComponentIDs p \<noteq> [] \<longrightarrow>
      componentLogs_conditions p =
        [spec_equality ''kubernetes_labels_openchoreo_dev_project_uid''
           (ComponentLogsParams.ProjectID p),
         spec_equality ''kubernetes_labels_openchoreo_dev_environment_uid''
           (ComponentLogsParams.EnvironmentID p),
         spec_or_group (map (spec_equality ''kubernetes_labels_openchoreo_dev_component_uid'')
           (ComponentIDs p))]
        @ (if SearchPhrase p = [] then []
           else [''log LIKE '' @ [quote] @ ''%'' @ escapeSQLString (SearchPhrase p) @ ''%''
                   @ [quote]])
        @ (if LogLevels p = [] then []
           else [spec_or_group (map (spec_equality ''logLevel'') (LogLevels p))]))
   \<and> componentLogs_sql p s =
        ''SELECT * FROM '' @ s @ '' WHERE '' @ Join (componentLogs_conditions p) '' AND ''
          @ (if SortOrder p = ''ASC'' \<or> SortOrder p = ''asc''
             then '' ORDER BY _timestamp ASC'' else '' ORDER BY _timestamp DESC'')
   \<and> field2 (componentLogs_query p s) ''query'' ''sql'' = Some (JString (componentLogs_sql p s))
   \<and> generateComponentLogsQuery M p s = M (componentLogs_query p s)"
proof (intro conjI impI)
  show "field2 (componentLogs_query p s) ''query'' ''sql'' = Some (JString (componentLogs_sql p s))"
    by (simp add: field2_def componentLogs_query_def)
  show "generateComponentLogsQuery M p s = M (componentLogs_query p s)"
    by (simp add: generateComponentLogsQuery_def)
qed (simp_all add: componentLogs_conditions_shape componentLogs_sql_shape)

theorem component_clause_iff_ids_witness:
  "ComponentIDs scenario1 = []
   \<and> componentLogs_conditions scenario1 =
       [''kubernetes_labels_openchoreo_dev_project_uid = '' @ [quote] @ ''p1'' @ [quote],
        ''kubernetes_labels_openchoreo_dev_environment_uid = '' @ [quote] @ ''e1'' @ [quote]]
   \<and> componentLogs_sql scenario1 ''default'' =
       ''SELECT * FROM default WHERE kubernetes_labels_openchoreo_dev_project_uid = ''
         @ [quote] @ ''p1'' @ [quote]
         @ '' AND kubernetes_labels_openchoreo_dev_environment_uid = ''
         @ [quote] @ ''e1'' @ [quote] @ '' ORDER BY _timestamp DESC''
   \<and> ComponentIDs (scenario1\<lparr>ComponentIDs := [''c1'', ''c2'']\<rparr>) \<noteq> []
   \<and> componentLogs_conditions (scenario1\<lparr>ComponentIDs := [''c1'', ''c2'']\<rparr>) =
       [''kubernetes_labels_openchoreo_dev_project_uid = '' @ [quote] @ ''p1'' @ [quote],
        ''kubernetes_labels_openchoreo_dev_environment_uid = '' @ [quote] @ ''e1'' @ [quote],
        ''(kubernetes_labels_openchoreo_dev_component_uid = '' @ [quote] @ ''c1'' @ [quote]
          @ '' OR kubernetes_labels_openchoreo_dev_component_uid = '' @ [quote] @ ''c2''
          @ [quote] @ '')'']"
proof -
  have esc: "escapeSQLString ''p1'' = ''p1''" "escapeSQLString ''e1'' = ''e1''"
    "escapeSQLString ''c1'' = ''c1''" "escapeSQLString ''c2'' = ''c2''"
    by (simp_all add: escapeSQLString_plain quote_def backslash_def)
  note empty = component_clause_iff_ids [of scenario1 "''default''" "\<lambda>d. None"]
  note given = component_clause_iff_ids
    [of "scenario1\<lparr>ComponentIDs := [''c1'', ''c2'']\<rparr>" "''default''" "\<lambda>d. None"]
  have e: "ComponentIDs scenario1 = []"
    by (simp add: scenario1_def)
  have g: "ComponentIDs (scenario1\<lparr>ComponentIDs := [''c1'', ''c2'']\<rparr>) \<noteq> []"
    by simp
  from empty e have c1: "componentLogs_conditions scenario1 =
       [''kubernetes_labels_openchoreo_dev_project_uid = '' @ [quote] @ ''p1'' @ [quote],
        ''kubernetes_labels_openchoreo_dev_environment_uid = '' @ [quote] @ ''e1'' @ [quote]]"
    by (simp add: scenario1_def spec_equality_def esc)
  from empty have "componentLogs_sql scenario1 ''default'' =
        ''SELECT * FROM '' @ ''default'' @ '' WHERE ''
          @ Join (componentLogs_conditions scenario1) '' AND ''
          @ (if SortOrder scenario1 = ''ASC'' \<or> SortOrder scenario1 = ''asc''
             then '' ORDER BY _timestamp ASC'' else '' ORDER BY _timestamp DESC'')"
    by blast
  then have s1: "componentLogs_sql scenario1 ''default'' =
       ''SELECT * FROM default WHERE kubernetes_labels_openchoreo_dev_project_uid = ''
         @ [quote] @ ''p1'' @ [quote]
         @ '' AND kubernetes_labels_openchoreo_dev_environment_uid = ''
         @ [quote] @ ''e1'' @ [quote] @ '' ORDER BY _timestamp DESC''"
    by (simp add: c1) (simp add: scenario1_def)
  from given g have c2: "componentLogs_conditions (scenario1\<lparr>ComponentIDs := [''c1'', ''c2'']\<rparr>) =
       [''kubernetes_labels_openchoreo_dev_project_uid = '' @ [quote] @ ''p1'' @ [quote],
        ''kubernetes_labels_openchoreo_dev_environment_uid = '' @ [quote] @ ''e1'' @ [quote],
        ''(kubernetes_labels_openchoreo_dev_component_uid = '' @ [quote] @ ''c1'' @ [quote]
          @ '' OR kubernetes_labels_openchoreo_dev_component_uid = '' @ [quote] @ ''c2''
          @ [quote] @ '')'']"
    by (simp add: scenario1_def spec_equality_def spec_or_group_def esc)
  from e c1 s1 g c2 show ?thesis
    by blast
qed

text \<open>
  C5, as the code has it. The sort clause is \<open>ORDER BY _timestamp ASC\<close> exactly when the
  sort order is the string \<open>ASC\<close> or the string \<open>asc\<close>, and \<open>ORDER BY _timestamp DESC\<close>
  for every other string: for \<open>desc\<close>, the empty string and \<open>banana\<close>, and also for the
  mixed-case spellings such as \<open>Asc\<close>. Nothing else in the SQL text depends on the sort
  order.
\<close>

theorem sort_clause_two_spellings:
  "componentLogs_sql p s =
     ''SELECT * FROM '' @ s @ '' WHERE '' @ Join (componentLogs_conditions p) '' AND ''
       @ (if SortOrder p = ''ASC'' \<or> SortOrder p = ''asc''
          then '' ORDER BY _timestamp ASC'' else '' ORDER BY _timestamp DESC'')
   \<and> componentLogs_conditions (p\<lparr>SortOrder := so\<rparr>) = componentLogs_conditions p
   \<and> (let body = ''SELECT * FROM '' @ s @ '' WHERE '' @ Join (componentLogs_conditions p) '' AND '';
           rendered = (\<lambda>x. componentLogs_sql (p\<lparr>SortOrder := x\<rparr>) s)
       in rendered ''asc'' = body @ '' ORDER BY _timestamp ASC''
        \<and> rendered ''ASC'' = body @ '' ORDER BY _timestamp ASC''
        \<and> rendered ''desc'' = body @ '' ORDER BY _timestamp DESC''
        \<and> rendered [] = body @ '' ORDER BY _timestamp DESC''
        \<and> rendered ''banana'' = body @ '' ORDER BY _timestamp DESC''
        \<and> rendered ''Asc'' = body @ '' ORDER BY _timestamp DESC'')"
proof -
  have same: "componentLogs_conditions (p\<lparr>SortOrder := x\<rparr>) = componentLogs_conditions p" for x
    by (simp add: componentLogs_conditions_shape)
  show ?thesis
    by (simp add: componentLogs_sql_shape same Let_def)
qed

text \<open>
  As stated, with a case-insensitive match, the property fails: \<open>Asc\<close> matches \<open>asc\<close> when case is ignored, and the query
  rendered for it is sorted descending.
\<close>

theorem sort_clause_case_insensitive_counterexample:
  "spec_equal_fold ''Asc'' ''asc''
   \<and> componentLogs_sql (scenario1\<lparr>SortOrder := ''Asc''\<rparr>) ''default'' =
       ''SELECT * FROM default WHERE kubernetes_labels_openchoreo_dev_project_uid = ''
         @ [quote] @ ''p1'' @ [quote]
         @ '' AND kubernetes_labels_openchoreo_dev_environment_uid = ''
         @ [quote] @ ''e1'' @ [quote] @ '' ORDER BY _timestamp DESC''"
proof -
  have esc: "escapeSQLString ''p1'' = ''p1''" "escapeSQLString ''e1'' = ''e1''"
    by (simp_all add: escapeSQLString_plain quote_def backslash_def)
  have "spec_equal_fold ''Asc'' ''asc''"
    by (simp add: spec_equal_fold_def spec_lower_def)
  moreover have "componentLogs_conditions (scenario1\<lparr>SortOrder := ''Asc''\<rparr>) =
       [''kubernetes_labels_openchoreo_dev_project_uid = '' @ [quote] @ ''p1'' @ [quote],
        ''kubernetes_labels_openchoreo_dev_environment_uid = '' @ [quote] @ ''e1'' @ [quote]]"
    by (simp add: componentLogs_conditions_shape scenario1_def spec_equality_def esc)
  ultimately show ?thesis
    by (simp add: componentLogs_sql_shape)
qed

text \<open>
  C6. The \<open>size\<close> field of the query document is 100 when the requested limit is zero or
  negative and the requested limit when it is positive: 0 and -5 give 100, 37 stays 37.
\<close>

theorem effective_limit:
  "field2 (componentLogs_query p s) ''query'' ''size''
     = Some (JInt (if sint (Limit p) \<le> 0 then 100 else sint (Limit p)))
   \<and> field2 (componentLogs_query (p\<lparr>Limit := 0\<rparr>) s) ''query'' ''size'' = Some (JInt 100)
   \<and> field2 (componentLogs_query (p\<lparr>Limit := - 5\<rparr>) s) ''query'' ''size'' = Some (JInt 100)
   \<and> field2 (componentLogs_query (p\<lparr>Limit := 37\<rparr>) s) ''query'' ''size'' = Some (JInt 37)
   \<and> generateComponentLogsQuery M p s = M (componentLogs_query p s)"
  by (simp add: field2_def componentLogs_query_def componentLogs_limit_def Let_def
      generateComponentLogsQuery_def)

text \<open>
  C7. For every alert definition and stream the rendered document holds: a query counting
  the matches of the escaped search pattern; the condition on that count with operator
  \<open>>\<close> and the definition's threshold; the definition's duration and frequency; the
  realtime flag, always off (the document spells it as the string \<open>no\<close>); and the one
  destination \<open>openchoreo_alerts\<close>. The flag and the destination do not depend on the
  input.
\<close>

theorem alert_document_contents:
  "field (alertConfig p s) ''query''
     = Some (JString (''SELECT count(*) as match_count FROM '' @ [dquote] @ s @ [dquote]
               @ '' WHERE str_match(log, '' @ [quote] @ escapeSQLString (SearchPattern p)
               @ [quote] @ '')''))
   \<and> field (alertConfig p s) ''condition''
     = Some (JObject [(''column'', JString ''match_count''), (''operator'', JString ''>''),
                      (''value'', JInt (sint (ThresholdValue p)))])
   \<and> field (alertConfig p s) ''duration'' = Some (JInt (sint (Duration p)))
   \<and> field (alertConfig p s) ''frequency'' = Some (JInt (sint (Frequency p)))
   \<and> field (alertConfig p s) ''is_realtime'' = Some (JString ''no'')
   \<and> field (alertConfig p s) ''destinations'' = Some (JStrings [''openchoreo_alerts''])
   \<and> field (alertConfig p s) ''alert_type'' = Some (JString ''scheduled'')
   \<and> generateAlertConfig M p s = M (alertConfig p s)"
  by (simp add: alertConfig_def Let_def generateAlertConfig_def)




text \<open>
  C9. When the listing is fetched and an alert in it has the queried name, the ID
  returned is that of the first such alert in the order of the listing, whatever follows
  it. The alerts before it are passed over because their names differ from the queried
  name as strings: a name that differs only in case, or that merely contains the queried
  name, is no match.
\<close>

theorem first_match_resolved:
  "url_parses env (baseURL c @ ''/api/v2/'' @ org c @ ''/alerts'')
     \<and> roundTrip env b (listAlertsRequest c) = (Replied 200 body, b1)
     \<and> json_Unmarshal_alerts env body = Some (pre @ a # post)
     \<and> (\<forall>x \<in> set pre. name x \<noteq> n) \<and> name a = n
   \<longrightarrow> getAlertIDByName env c n (b, sent)
         = (Inr (alert_id a), (b1, sent @ [listAlertsRequest c]))"
  by (simp add: getAlertIDByName_listed scanAlerts_first)

theorem first_match_resolved_witness:
  "getAlertIDByName stub_env stub_client ''foo'' (0, [])
     = (Inr ''id-3'', (1, [listAlertsRequest stub_client]))"
proof -
  let ?pre = "[\<lparr>alert_id = ''id-1'', name = ''Foo''\<rparr>, \<lparr>alert_id = ''id-2'', name = ''foo-bar''\<rparr>]"
  let ?a = "\<lparr>alert_id = ''id-3'', name = ''foo''\<rparr>"
  let ?post = "[\<lparr>alert_id = ''id-4'', name = ''foo''\<rparr>]"
  have h: "url_parses stub_env (baseURL stub_client @ ''/api/v2/'' @ org stub_client @ ''/alerts'')
     \<and> roundTrip stub_env 0 (listAlertsRequest stub_client) = (Replied 200 ''listing'', 1)
     \<and> json_Unmarshal_alerts stub_env ''listing'' = Some (?pre @ ?a # ?post)
     \<and> (\<forall>x \<in> set ?pre. name x \<noteq> ''foo'') \<and> name ?a = ''foo''"
    by (simp add: stub_env_def)
  have "getAlertIDByName stub_env stub_client ''foo'' (0, [])
         = (Inr (alert_id ?a), (1, [] @ [listAlertsRequest stub_client]))"
    using first_match_resolved [of stub_env stub_client 0 "''listing''" 1 ?pre ?a ?post "''foo''" "[]"] h
    by blast
  then show ?thesis
    by simp
qed

text \<open>
  C10. In every rendered query document \<open>from\<close> is 0 and \<open>timeout\<close> is 0, and
  \<open>start_time\<close> and \<open>end_time\<close> are the microsecond values of the request's start and
  end: for an instant whose microsecond count fits an \<open>int64\<close>, a million times its
  seconds plus a thousandth of its nanoseconds.
\<close>

theorem pagination_and_time_range:
  "field2 (componentLogs_query p s) ''query'' ''from'' = Some (JInt 0)
   \<and> field (componentLogs_query p s) ''timeout'' = Some (JInt 0)
   \<and> field2 (componentLogs_query p s) ''query'' ''start_time''
       = Some (JInt (sint (UnixMicro (StartTime p))))
   \<and> field2 (componentLogs_query p s) ''query'' ''end_time''
       = Some (JInt (sint (UnixMicro (EndTime p))))
   \<and> (\<forall>t. 0 \<le> nsec t \<and> - (2 ^ 63) \<le> unixSec t * 1000000 + nsec t div 1000
          \<and> unixSec t * 1000000 + nsec t div 1000 < 2 ^ 63
        \<longrightarrow> sint (UnixMicro t) = unixSec t * 1000000 + nsec t div 1000)
   \<and> generateComponentLogsQuery M p s = M (componentLogs_query p s)"
proof -
  have micro: "sint (UnixMicro t) = unixSec t * 1000000 + nsec t div 1000"
    if "0 \<le> nsec t" "- (2 ^ 63) \<le> unixSec t * 1000000 + nsec t div 1000"
      "unixSec t * 1000000 + nsec t div 1000 < 2 ^ 63" for t
  proof -
    have "nsec t sdiv 1000 = nsec t div 1000"
      using that(1) by (simp add: signed_divide_int_def sgn_if)
    moreover have "sint (word_of_int x :: 64 word) = x"
      if "- (2 ^ 63) \<le> x" "x < 2 ^ 63" for x :: int
      using that by (simp add: sint_sbintrunc' signed_take_bit_int_eq_self)
    ultimately show ?thesis
      unfolding UnixMicro_def using that(2,3) by presburger
  qed
  show ?thesis
    using micro
    by (simp add: field2_def componentLogs_query_def generateComponentLogsQuery_def)
qed

theorem pagination_and_time_range_witness:
  "field2 (componentLogs_query scenario1 ''default'') ''query'' ''from'' = Some (JInt 0)
   \<and> field (componentLogs_query scenario1 ''default'') ''timeout'' = Some (JInt 0)
   \<and> field2 (componentLogs_query scenario1 ''default'') ''query'' ''start_time''
       = Some (JInt 1704067200000000)
   \<and> field2 (componentLogs_query scenario1 ''default'') ''query'' ''end_time''
       = Some (JInt 1704153600000000)"
proof -
  note inst = pagination_and_time_range [of scenario1 "''default''" "\<lambda>d. None"]
  have s: "StartTime scenario1 = \<lparr>unixSec = 1704067200, nsec = 0\<rparr>"
    and e: "EndTime scenario1 = \<lparr>unixSec = 1704153600, nsec = 0\<rparr>"
    by (simp_all add: scenario1_def)
  from inst have micro: "\<forall>t. 0 \<le> nsec t \<and> - (2 ^ 63) \<le> unixSec t * 1000000 + nsec t div 1000
          \<and> unixSec t * 1000000 + nsec t div 1000 < 2 ^ 63
        \<longrightarrow> sint (UnixMicro t) = unixSec t * 1000000 + nsec t div 1000"
    by blast
  have "sint (UnixMicro (StartTime scenario1)) = 1704067200000000"
    using micro [rule_format, of "StartTime scenario1"] by (simp add: s)
  moreover have "sint (UnixMicro (EndTime scenario1)) = 1704153600000000"
    using micro [rule_format, of "EndTime scenario1"] by (simp add: e)
  ultimately show ?thesis
    using inst by simp
qed

end
